theory Spec2Isabelle
  imports Main "HOL-Library.Word" "HOL-Library.Sublist"
begin

section \<open>Go values used by the server and the uploader\<close>

text \<open>
  A Go \<open>string\<close> is a sequence of bytes, which is what \<^typ>\<open>string\<close> is. A Go
  \<open>error\<close> is modelled by its message (the result of \<open>err.Error()\<close>); \<open>nil\<close> is
  \<open>None\<close>. A \<open>float64\<close> is its IEEE 754 bit pattern and an \<open>int64\<close> a 64-bit word.
  A \<open>rune\<close> is a Unicode code point.
\<close>

type_synonym error = string
type_synonym float64 = "64 word"
type_synonym int64 = "64 word"
type_synonym rune = nat

text \<open>
  The comparison \<open>x == 0\<close> on a \<open>float64\<close>: true for both zeros (all bits but the
  sign bit are clear), false for every other value, NaN included.
\<close>

definition float64_eq_zero :: "float64 \<Rightarrow> bool" where
  "float64_eq_zero x \<longleftrightarrow> take_bit 63 x = 0"

text \<open>The byte \<open>'\n'\<close>.\<close>

definition newline :: char where
  "newline = CHR 0x0A"

text \<open>
  \<open>strings.Cut(s, sep)\<close>, \<open>strings.Split(s, sep)\<close> and \<open>strings.Join(elems, sep)\<close>
  for a separator of one byte (the sources only pass \<open>"\n"\<close> and \<open>":"\<close>), and
  \<open>strings.HasPrefix\<close>. \<open>Cut\<close> returns the text before and after the first
  separator and whether it was found; when it is not, \<open>before\<close> is all of \<open>s\<close>.
  \<open>Split\<close> always returns at least one element.
\<close>

definition strings_Cut :: "string \<Rightarrow> char \<Rightarrow> string \<times> string \<times> bool" where
  "strings_Cut s sep =
     (takeWhile (\<lambda>c. c \<noteq> sep) s, tl (dropWhile (\<lambda>c. c \<noteq> sep) s), sep \<in> set s)"




section \<open>Reports and the upload configuration\<close>

text \<open>
  \<open>telemetry.ProgramReport\<close> and \<open>telemetry.Report\<close>, with the fields the server
  reads. \<open>Counters\<close> and \<open>Stacks\<close> are Go maps; they are lists of key and count
  here, and a \<open>range\<close> loop visits them in list order. Go leaves the order of a map
  iteration open: every order is a list, and the theorems hold for every list.
\<close>

record ProgramReport =
  Program :: string
  Version :: string
  GoVersion :: string
  GOOS :: string
  GOARCH :: string
  Counters :: "(string \<times> int64) list"
  Stacks :: "(string \<times> int64) list"

record Report =
  Week :: string
  X :: float64
  Config :: string
  Programs :: "ProgramReport list"

text \<open>
  \<open>tconfig.Config\<close> (package \<open>internal/config\<close>, whose code is not among these
  sources): the upload configuration's allow-list, taken through the methods that
  \<open>validate\<close> calls on it.
\<close>

record tconfig =
  HasGOARCH :: "string \<Rightarrow> bool"
  HasGOOS :: "string \<Rightarrow> bool"
  HasGoVersion :: "string \<Rightarrow> bool"
  HasProgram :: "string \<Rightarrow> bool"
  HasVersion :: "string \<Rightarrow> string \<Rightarrow> bool"
  HasCounter :: "string \<Rightarrow> string \<Rightarrow> bool"
  HasStack :: "string \<Rightarrow> string \<Rightarrow> bool"

text \<open>
  The functions of Go's standard library and of \<open>golang.org/x/mod\<close> that the server
  calls. They are parameters of the model: every theorem below holds whatever they
  compute.
  \<^item> \<open>time_Parse layout value\<close> is the error of \<open>time.Parse\<close> (\<open>None\<close> when the value
    parses);
  \<^item> \<open>semver_IsValid\<close> is \<open>semver.IsValid\<close>;
  \<^item> \<open>fmt_g\<close> and \<open>fmt_q\<close> are the verbs \<open>%g\<close> (on a \<open>float64\<close>) and \<open>%q\<close> (on a
    string) of package \<open>fmt\<close>; the verb \<open>%s\<close> on a string is the string itself;
  \<^item> \<open>json_Decode\<close> is \<open>json.NewDecoder(body).Decode(&report)\<close> and \<open>json_Marshal\<close>
    the bytes that \<open>json.NewEncoder(f).Encode(report)\<close> writes to \<open>f\<close>;
  \<^item> \<open>runes_of\<close> is the conversion \<open>[]rune(s)\<close> and \<open>string_of\<close> the conversion
    \<open>string(runes)\<close>.
\<close>

record libs =
  time_Parse :: "string \<Rightarrow> string \<Rightarrow> error option"
  semver_IsValid :: "string \<Rightarrow> bool"
  fmt_g :: "float64 \<Rightarrow> string"
  fmt_q :: "string \<Rightarrow> string"
  json_Decode :: "string \<Rightarrow> error + Report"
  json_Marshal :: "Report \<Rightarrow> error + string"
  runes_of :: "string \<Rightarrow> rune list"
  string_of :: "rune list \<Rightarrow> string"

section \<open>The server: \<open>validate\<close>\<close>

text \<open>The loop \<open>for c := range p.Counters\<close> of \<open>validate\<close>.\<close>

fun validate_counters :: "tconfig \<Rightarrow> string \<Rightarrow> (string \<times> int64) list \<Rightarrow> error option" where
  "validate_counters cfg prog [] = None"
| "validate_counters cfg prog ((c, n) # cs) =
     (if \<not> HasCounter cfg prog c then Some (''unknown counter '' @ c)
      else validate_counters cfg prog cs)"

text \<open>The loop \<open>for s := range p.Stacks\<close> of \<open>validate\<close>.\<close>

fun validate_stacks :: "tconfig \<Rightarrow> string \<Rightarrow> (string \<times> int64) list \<Rightarrow> error option" where
  "validate_stacks cfg prog [] = None"
| "validate_stacks cfg prog ((s, n) # ss) =
     (let (prefix, _, _) = strings_Cut s newline in
      if \<not> HasStack cfg prog prefix then Some (''unknown stack '' @ s)
      else validate_stacks cfg prog ss)"

text \<open>The loop \<open>for _, p := range r.Programs\<close> of \<open>validate\<close>.\<close>

fun validate_programs :: "libs \<Rightarrow> tconfig \<Rightarrow> ProgramReport list \<Rightarrow> error option" where
  "validate_programs L cfg [] = None"
| "validate_programs L cfg (p # ps) =
     (if \<not> HasGOARCH cfg (GOARCH p) \<or>
         \<not> HasGOOS cfg (GOOS p) \<or>
         \<not> HasGoVersion cfg (GoVersion p) \<or>
         \<not> HasProgram cfg (Program p) \<or>
         \<not> HasVersion cfg (Program p) (Version p)
      then Some (''unknown program build '' @ Program p @ ''@'' @ fmt_q L (Version p) @ '' '' @
                 fmt_q L (GoVersion p) @ '' '' @ GOOS p @ ''/'' @ GOARCH p)
      else (case validate_counters cfg (Program p) (Counters p) of
              Some err \<Rightarrow> Some err
            | None \<Rightarrow>
               (case validate_stacks cfg (Program p) (Stacks p) of
                  Some err \<Rightarrow> Some err
                | None \<Rightarrow> validate_programs L cfg ps)))"

text \<open>\<open>validate\<close> validates the telemetry report data against the latest config.\<close>

definition validate :: "libs \<Rightarrow> Report \<Rightarrow> tconfig \<Rightarrow> error option" where
  "validate L r cfg =
     (if time_Parse L ''2006-01-02'' (Week r) \<noteq> None then Some (''invalid week '' @ Week r)
      else if \<not> semver_IsValid L (Config r) then Some (''invalid config '' @ Config r)
      else if float64_eq_zero (X r) then Some (''invalid X '' @ fmt_g L (X r))
      else validate_programs L cfg (Programs r))"

section \<open>The server: storage and \<open>handleUpload\<close>\<close>

text \<open>
  Modelled from the spec: package \<open>godev/internal/storage\<close> (the bucket behind
  \<open>buckets.Upload\<close>) is not among these sources. The spec takes the storage backend as
  a collaborator that provides atomic per-object writes, overwrite-safe, last write
  wins. So a bucket maps object names to contents; \<open>Object(name).NewWriter(ctx)\<close>
  opens a writer that buffers what is written to it; the first \<open>Close\<close> of a writer
  stores the buffer under the name, replacing what was there; a call that fails leaves
  the bucket as it was. Whether a call fails is not decided by the handler: the
  outcome of each storage call of one request is given by \<open>faults\<close>.
\<close>

type_synonym bucket = "string \<rightharpoonup> string"

record writer =
  w_name :: string
  w_buf :: string
  w_closed :: bool

record faults =
  NewWriter_err :: "error option"
  Write_err :: "error option"
  Close_err :: "error option"

definition NewWriter :: "faults \<Rightarrow> string \<Rightarrow> error + writer" where
  "NewWriter F name =
     (case NewWriter_err F of
        Some err \<Rightarrow> Inl err
      | None \<Rightarrow> Inr \<lparr>w_name = name, w_buf = [], w_closed = False\<rparr>)"

definition Write :: "faults \<Rightarrow> writer \<Rightarrow> string \<Rightarrow> error + writer" where
  "Write F f data =
     (case Write_err F of
        Some err \<Rightarrow> Inl err
      | None \<Rightarrow> Inr (f\<lparr>w_buf := w_buf f @ data\<rparr>))"

definition Close :: "faults \<Rightarrow> writer \<Rightarrow> bucket \<Rightarrow> error option \<times> writer \<times> bucket" where
  "Close F f b =
     (case Close_err F of
        Some err \<Rightarrow> (Some err, f\<lparr>w_closed := True\<rparr>, b)
      | None \<Rightarrow>
         (None, f\<lparr>w_closed := True\<rparr>,
          if w_closed f then b else b(w_name f \<mapsto> w_buf f)))"

text \<open>\<open>json.NewEncoder(f).Encode(report)\<close>: marshal the report, then write it to \<open>f\<close>.\<close>

definition Encode :: "libs \<Rightarrow> faults \<Rightarrow> writer \<Rightarrow> Report \<Rightarrow> error + writer" where
  "Encode L F f report =
     (case json_Marshal L report of
        Inl err \<Rightarrow> Inl err
      | Inr data \<Rightarrow> Write F f data)"

text \<open>\<open>defer f.Close()\<close>: the writer is closed when the handler returns, the result dropped.\<close>

definition deferred_Close :: "faults \<Rightarrow> writer \<Rightarrow> bucket \<Rightarrow> bucket" where
  "deferred_Close F f b = snd (snd (Close F f b))"

text \<open>
  The state the handler works on: the upload bucket and the lines written to the
  logger. A request is its method and its body. A handler returns
  \<open>content.Status(w, code)\<close>, \<open>content.Error(err, code)\<close> or a plain error.
\<close>

record server =
  Upload :: bucket
  log_out :: "string list"

record request =
  Method :: string
  Body :: string

datatype response =
  content_Status nat
| content_Error error nat
| plain_error error

text \<open>
  The closure \<open>warn\<close> of \<open>handleUpload\<close>: log the error, but only the first 80
  characters. The rune \<open>0x2026\<close> is the ellipsis.
\<close>

definition warn :: "libs \<Rightarrow> string \<Rightarrow> error \<Rightarrow> server \<Rightarrow> server" where
  "warn L msg err s =
     (let errs = runes_of L err;
          errs = (if length errs > 80 then take 79 errs @ [0x2026] else errs)
      in s\<lparr>log_out := log_out s @ [msg @ '': '' @ string_of L errs]\<rparr>)"

definition handleUpload ::
  "libs \<Rightarrow> tconfig \<Rightarrow> faults \<Rightarrow> request \<Rightarrow> server \<Rightarrow> response \<times> server" where
  "handleUpload L ucfg F r s =
     (if Method r = ''POST'' then
        (case json_Decode L (Body r) of
           Inl err \<Rightarrow> (content_Error err 400, warn L ''invalid JSON payload'' err s)
         | Inr report \<Rightarrow>
            (case validate L report ucfg of
               Some err \<Rightarrow> (content_Error err 400, warn L ''invalid report'' err s)
             | None \<Rightarrow>
                (let name = Week report @ ''/'' @ fmt_g L (X report) @ ''.json'' in
                 case NewWriter F name of
                   Inl err \<Rightarrow> (plain_error err, s)
                 | Inr f \<Rightarrow>
                    (case Encode L F f report of
                       Inl err \<Rightarrow>
                         (plain_error err, s\<lparr>Upload := deferred_Close F f (Upload s)\<rparr>)
                     | Inr f \<Rightarrow>
                        (case Close F f (Upload s) of
                           (Some err, f, b) \<Rightarrow>
                             (plain_error err, s\<lparr>Upload := deferred_Close F f b\<rparr>)
                         | (None, f, b) \<Rightarrow>
                             (content_Status 200, s\<lparr>Upload := deferred_Close F f b\<rparr>))))))
      else (content_Status 405, s))"

section \<open>The uploader: \<open>Run\<close>\<close>

text \<open>
  \<open>disabledOnPlatform\<close> indicates whether telemetry is disabled due to bugs in the
  current platform. It is a constant of the build: a function of \<open>runtime.GOOS\<close> and
  \<open>runtime.GOARCH\<close> alone.
\<close>

definition disabledOnPlatform :: "string \<Rightarrow> string \<Rightarrow> bool" where
  "disabledOnPlatform goos goarch \<longleftrightarrow>
     False \<or>
     goos = ''openbsd'' \<or>
     goos = ''solaris'' \<or>
     goos = ''android'' \<or>
     goos = ''js'' \<or>
     goos = ''wasip1'' \<or>
     goarch = ''386''"

text \<open>
  The methods \<open>findWork\<close>, \<open>reports\<close> and \<open>uploadReport\<close> of the uploader are in
  files that are not among these sources; \<open>Run\<close> takes them as parameters. They work
  on a state \<open>'u\<close>: the uploader, the telemetry directory and the network.
  \<open>uploadReport\<close> returns nothing: what happened to the upload shows in the state
  only. \<open>Run\<close> also returns the calls it made, in order.
\<close>

record ('u, 'w, 'r) uploader =
  findWork :: "'u \<Rightarrow> 'w \<times> 'u"
  reports :: "'w \<Rightarrow> 'u \<Rightarrow> ('r list \<times> error option) \<times> 'u"
  uploadReport :: "'r \<Rightarrow> 'u \<Rightarrow> 'u"

datatype 'r event = FindWork | Reports | Printf string | UploadReport 'r

text \<open>The loop \<open>for _, f := range ready\<close> of \<open>Run\<close>.\<close>

fun upload_all :: "('u, 'w, 'r) uploader \<Rightarrow> 'r list \<Rightarrow> 'u \<Rightarrow> 'u \<times> 'r event list" where
  "upload_all U [] u = (u, [])"
| "upload_all U (f # fs) u =
     (let u = uploadReport U f u;
          (u, calls) = upload_all U fs u
      in (u, UploadReport f # calls))"

text \<open>
  \<open>Run\<close> generates and uploads reports. Both versions of the uploader in the sources
  have this body; the first tests its own constant \<open>disabledOnPlatform\<close>, the second
  \<open>telemetry.DisabledOnPlatform\<close>. The constant's value is the argument \<open>disabled\<close>.
\<close>

definition Run :: "bool \<Rightarrow> ('u, 'w, 'r) uploader \<Rightarrow> 'u \<Rightarrow> 'u \<times> 'r event list" where
  "Run disabled U u =
     (if disabled then (u, [])
      else
        (let (todo, u) = findWork U u;
             ((ready, err), u) = reports U todo u;
             logged = (case err of
                         Some e \<Rightarrow> [Printf (''reports: '' @ e)]
                       | None \<Rightarrow> []);
             (u, calls) = upload_all U ready u
         in (u, [FindWork, Reports] @ logged @ calls)))"

text \<open>The reports whose upload was attempted, read off the calls of a pass.\<close>

fun uploads_of :: "'r event list \<Rightarrow> 'r list" where
  "uploads_of [] = []"
| "uploads_of (UploadReport f # calls) = f # uploads_of calls"
| "uploads_of (_ # calls) = uploads_of calls"

section \<open>The crash monitor's test: \<open>sanitize\<close>\<close>









section \<open>A concrete configuration, library and uploader\<close>

text \<open>
  The scenario of the spec: week \<open>2024-01-08\<close>, program \<open>go\<close>, version \<open>go1.22\<close>, on
  \<open>linux/amd64\<close>, counter \<open>compile/success = 3\<close>, and an upload configuration that
  allows exactly that tuple and counter (and the stack counter \<open>crash/crash\<close>).
  The theorems are evaluated on it. \<open>0x3FE0000000000000\<close> is the \<open>float64\<close> 0.5.
\<close>

definition scenario_cfg :: tconfig where
  "scenario_cfg =
     \<lparr>HasGOARCH = (\<lambda>s. s = ''amd64''),
      HasGOOS = (\<lambda>s. s = ''linux''),
      HasGoVersion = (\<lambda>s. s = ''go1.22''),
      HasProgram = (\<lambda>s. s = ''go''),
      HasVersion = (\<lambda>p v. p = ''go'' \<and> v = ''go1.22''),
      HasCounter = (\<lambda>p c. p = ''go'' \<and> c = ''compile/success''),
      HasStack = (\<lambda>p s. p = ''go'' \<and> s = ''crash/crash'')\<rparr>"

definition scenario_program :: ProgramReport where
  "scenario_program =
     \<lparr>Program = ''go'', Version = ''go1.22'', GoVersion = ''go1.22'',
      GOOS = ''linux'', GOARCH = ''amd64'',
      Counters = [(''compile/success'', 3)], Stacks = []\<rparr>"

definition scenario_report :: Report where
  "scenario_report =
     \<lparr>Week = ''2024-01-08'', X = 0x3FE0000000000000, Config = ''v0.1.0'',
      Programs = [scenario_program]\<rparr>"

text \<open>The same report with a counter that the configuration does not have.\<close>

definition unknown_counter_report :: Report where
  "unknown_counter_report =
     scenario_report\<lparr>Programs :=
       [scenario_program\<lparr>Counters := [(''compile/success'', 3), (''compile/secret'', 1)]\<rparr>]\<rparr>"

text \<open>A report with no programs, and one whose week is 90 bytes that are no date.\<close>

definition empty_report :: Report where
  "empty_report = scenario_report\<lparr>Programs := []\<rparr>"

definition long_week_report :: Report where
  "long_week_report = scenario_report\<lparr>Week := replicate 90 (CHR ''9'')\<rparr>"

text \<open>UTF-8 of a code point below \<open>0x10000\<close>.\<close>

definition utf8 :: "rune \<Rightarrow> string" where
  "utf8 c =
     (if c < 0x80 then [char_of c]
      else if c < 0x800 then [char_of (0xC0 + c div 0x40), char_of (0x80 + c mod 0x40)]
      else [char_of (0xE0 + c div 0x1000), char_of (0x80 + c div 0x40 mod 0x40),
            char_of (0x80 + c mod 0x40)])"

text \<open>
  A library that is enough for the scenario: it parses the one date and the one
  version, prints the one number, decodes four request bodies, each a name for the
  report it stands for, and converts ASCII text to runes.
\<close>

definition scenario_libs :: libs where
  "scenario_libs =
     \<lparr>time_Parse = (\<lambda>layout v.
        if layout = ''2006-01-02'' \<and> v = ''2024-01-08'' then None
        else Some (''parsing time '' @ v)),
      semver_IsValid = (\<lambda>v. v = ''v0.1.0''),
      fmt_g = (\<lambda>x. if x = 0x3FE0000000000000 then ''0.5'' else ''0''),
      fmt_q = (\<lambda>s. [CHR 0x22] @ s @ [CHR 0x22]),
      json_Decode = (\<lambda>body.
        if body = ''scenario'' then Inr scenario_report
        else if body = ''unknown counter'' then Inr unknown_counter_report
        else if body = ''empty'' then Inr empty_report
        else if body = ''long week'' then Inr long_week_report
        else Inl ''unexpected EOF''),
      json_Marshal = (\<lambda>r. Inr (''Week '' @ Week r @ '' Config '' @ Config r)),
      runes_of = map of_char,
      string_of = (\<lambda>rs. concat (map utf8 rs))\<rparr>"

definition no_faults :: faults where
  "no_faults = \<lparr>NewWriter_err = None, Write_err = None, Close_err = None\<rparr>"

definition empty_server :: server where
  "empty_server = \<lparr>Upload = Map.empty, log_out = []\<rparr>"

text \<open>
  An uploader over a state that lists the reports sent so far: three reports are
  ready, and the upload of \<open>b.json\<close> fails (nothing is sent for it).
\<close>

definition scenario_uploader :: "(string list, unit, string) uploader" where
  "scenario_uploader =
     \<lparr>findWork = (\<lambda>u. ((), u)),
      reports = (\<lambda>todo u. (([''a.json'', ''b.json'', ''c.json''], None), u)),
      uploadReport = (\<lambda>f u. if f = ''b.json'' then u else u @ [f])\<rparr>"

section \<open>Properties of \<open>validate\<close>\<close>

lemma validate_counters_error_iff:
  "validate_counters cfg prog cs \<noteq> None \<longleftrightarrow>
     (\<exists>c \<in> set (map fst cs). \<not> HasCounter cfg prog c)"
  by (induction cs) auto

lemma validate_stacks_error_iff:
  "validate_stacks cfg prog ss \<noteq> None \<longleftrightarrow>
     (\<exists>s \<in> set (map fst ss). \<not> HasStack cfg prog (fst (strings_Cut s newline)))"
  by (induction ss) (auto simp: strings_Cut_def)

lemma validate_programs_error_iff:
  "validate_programs L cfg ps \<noteq> None \<longleftrightarrow>
     (\<exists>p \<in> set ps.
        \<not> HasGOARCH cfg (GOARCH p) \<or> \<not> HasGOOS cfg (GOOS p) \<or>
        \<not> HasGoVersion cfg (GoVersion p) \<or> \<not> HasProgram cfg (Program p) \<or>
        \<not> HasVersion cfg (Program p) (Version p) \<or>
        (\<exists>c \<in> set (map fst (Counters p)). \<not> HasCounter cfg (Program p) c) \<or>
        (\<exists>s \<in> set (map fst (Stacks p)).
           \<not> HasStack cfg (Program p) (fst (strings_Cut s newline))))"
proof (induction ps)
  case Nil
  show ?case by simp
next
  case (Cons p ps)
  have c: "validate_counters cfg (Program p) (Counters p) = None \<longleftrightarrow>
      \<not> (\<exists>c \<in> set (map fst (Counters p)). \<not> HasCounter cfg (Program p) c)"
    using validate_counters_error_iff [of cfg "Program p" "Counters p"] by blast
  have s: "validate_stacks cfg (Program p) (Stacks p) = None \<longleftrightarrow>
      \<not> (\<exists>s \<in> set (map fst (Stacks p)).
           \<not> HasStack cfg (Program p) (fst (strings_Cut s newline)))"
    using validate_stacks_error_iff [of cfg "Program p" "Stacks p"] by blast
  show ?case
    using Cons.IH c s by (auto split: option.splits)
qed

lemmas scenario_defs =
  scenario_libs_def scenario_cfg_def scenario_report_def scenario_program_def
  unknown_counter_report_def empty_report_def long_week_report_def
  no_faults_def empty_server_def float64_eq_zero_def

text \<open>
  Claim C1. \<open>validate\<close> returns an error if and only if the week does not parse as a
  date of layout \<open>2006-01-02\<close>, or the config is not a valid semantic version, or
  \<open>X\<close> equals zero, or some program report has a GOARCH, GOOS, Go version, program
  or program version that the configuration does not have, or a counter key that is
  not a counter of its program, or a stack key whose text up to the first newline is
  not a stack counter of its program. Otherwise it returns \<open>nil\<close>.
\<close>

theorem validate_error_iff:
  "validate L r cfg \<noteq> None \<longleftrightarrow>
     time_Parse L ''2006-01-02'' (Week r) \<noteq> None \<or>
     \<not> semver_IsValid L (Config r) \<or>
     float64_eq_zero (X r) \<or>
     (\<exists>p \<in> set (Programs r).
        \<not> HasGOARCH cfg (GOARCH p) \<or> \<not> HasGOOS cfg (GOOS p) \<or>
        \<not> HasGoVersion cfg (GoVersion p) \<or> \<not> HasProgram cfg (Program p) \<or>
        \<not> HasVersion cfg (Program p) (Version p) \<or>
        (\<exists>c \<in> set (map fst (Counters p)). \<not> HasCounter cfg (Program p) c) \<or>
        (\<exists>s \<in> set (map fst (Stacks p)).
           \<not> HasStack cfg (Program p) (fst (strings_Cut s newline))))"
  unfolding validate_def using validate_programs_error_iff [of L cfg "Programs r"] by auto

text \<open>
  On the scenario: the report with the counter \<open>compile/secret\<close> is rejected, the
  report of the scenario is not.
\<close>

theorem validate_error_iff_witness:
  "validate scenario_libs unknown_counter_report scenario_cfg \<noteq> None \<and>
   validate scenario_libs scenario_report scenario_cfg = None"
proof
  have "\<exists>p \<in> set (Programs unknown_counter_report).
          \<exists>c \<in> set (map fst (Counters p)). \<not> HasCounter scenario_cfg (Program p) c"
    by (simp add: scenario_defs)
  then show "validate scenario_libs unknown_counter_report scenario_cfg \<noteq> None"
    using validate_error_iff [of scenario_libs unknown_counter_report scenario_cfg] by blast
next
  have "\<not> (time_Parse scenario_libs ''2006-01-02'' (Week scenario_report) \<noteq> None \<or>
     \<not> semver_IsValid scenario_libs (Config scenario_report) \<or>
     float64_eq_zero (X scenario_report) \<or>
     (\<exists>p \<in> set (Programs scenario_report).
        \<not> HasGOARCH scenario_cfg (GOARCH p) \<or> \<not> HasGOOS scenario_cfg (GOOS p) \<or>
        \<not> HasGoVersion scenario_cfg (GoVersion p) \<or> \<not> HasProgram scenario_cfg (Program p) \<or>
        \<not> HasVersion scenario_cfg (Program p) (Version p) \<or>
        (\<exists>c \<in> set (map fst (Counters p)). \<not> HasCounter scenario_cfg (Program p) c) \<or>
        (\<exists>s \<in> set (map fst (Stacks p)).
           \<not> HasStack scenario_cfg (Program p) (fst (strings_Cut s newline)))))"
    by (simp add: scenario_defs)
  then show "validate scenario_libs scenario_report scenario_cfg = None"
    using validate_error_iff [of scenario_libs scenario_report scenario_cfg] by blast
qed

text \<open>
  Claim C10. A report with no programs passes the checks on the programs vacuously:
  when its week parses, its config is a valid version and its \<open>X\<close> is not zero,
  \<open>validate\<close> returns \<open>nil\<close>, and a POST of it whose storage calls succeed is answered
  with status 200 and stored.
\<close>

theorem validate_no_programs:
  assumes "Programs r = []"
    and "time_Parse L ''2006-01-02'' (Week r) = None"
    and "semver_IsValid L (Config r)"
    and "\<not> float64_eq_zero (X r)"
  shows "validate L r cfg = None \<and>
    (\<forall>req data F s.
       Method req = ''POST'' \<and> json_Decode L (Body req) = Inr r \<and>
       json_Marshal L r = Inr data \<and>
       NewWriter_err F = None \<and> Write_err F = None \<and> Close_err F = None \<longrightarrow>
       handleUpload L cfg F req s =
         (content_Status 200,
          s\<lparr>Upload := (Upload s)(Week r @ ''/'' @ fmt_g L (X r) @ ''.json'' \<mapsto> data)\<rparr>))"
proof -
  have v: "validate L r cfg = None"
    using assms by (simp add: validate_def)
  then show ?thesis
    by (simp add: handleUpload_def NewWriter_def Encode_def Write_def Close_def
        deferred_Close_def)
qed

theorem validate_no_programs_witness:
  "validate scenario_libs empty_report scenario_cfg = None \<and>
   fst (handleUpload scenario_libs scenario_cfg no_faults
          \<lparr>Method = ''POST'', Body = ''empty''\<rparr> empty_server) = content_Status 200 \<and>
   Upload (snd (handleUpload scenario_libs scenario_cfg no_faults
          \<lparr>Method = ''POST'', Body = ''empty''\<rparr> empty_server)) ''2024-01-08/0.5.json'' =
     Some ''Week 2024-01-08 Config v0.1.0''"
proof -
  have h: "Programs empty_report = []"
    "time_Parse scenario_libs ''2006-01-02'' (Week empty_report) = None"
    "semver_IsValid scenario_libs (Config empty_report)"
    "\<not> float64_eq_zero (X empty_report)"
    by (simp_all add: scenario_defs)
  note t = validate_no_programs [OF h, of scenario_cfg]
  have "handleUpload scenario_libs scenario_cfg no_faults
          \<lparr>Method = ''POST'', Body = ''empty''\<rparr> empty_server =
        (content_Status 200,
         empty_server\<lparr>Upload := (Upload empty_server)
           (Week empty_report @ ''/'' @ fmt_g scenario_libs (X empty_report) @ ''.json'' \<mapsto>
            ''Week 2024-01-08 Config v0.1.0'')\<rparr>)"
    using t by (simp add: scenario_defs)
  then show ?thesis
    using t by (simp add: scenario_defs)
qed


section \<open>Properties of \<open>handleUpload\<close>\<close>

lemma handleUpload_stored:
  assumes "Method r = ''POST''"
    and "json_Decode L (Body r) = Inr report"
    and "validate L report ucfg = None"
    and "json_Marshal L report = Inr data"
    and "NewWriter_err F = None" and "Write_err F = None" and "Close_err F = None"
  shows "handleUpload L ucfg F r s =
    (content_Status 200,
     s\<lparr>Upload := (Upload s)(Week report @ ''/'' @ fmt_g L (X report) @ ''.json'' \<mapsto> data)\<rparr>)"
  using assms
  by (simp add: handleUpload_def NewWriter_def Encode_def Write_def Close_def deferred_Close_def)

lemma handleUpload_200D:
  assumes "fst (handleUpload L ucfg F r s) = content_Status 200"
  shows "Method r = ''POST'' \<and>
    (\<exists>report data. json_Decode L (Body r) = Inr report \<and> validate L report ucfg = None \<and>
       json_Marshal L report = Inr data \<and>
       NewWriter_err F = None \<and> Write_err F = None \<and> Close_err F = None)"
  using assms
  by (auto simp: handleUpload_def NewWriter_def Encode_def Write_def Close_def
      deferred_Close_def Let_def
      split: if_splits sum.splits option.splits prod.splits)

lemma handleUpload_invalid:
  assumes "Method r = ''POST''"
    and "json_Decode L (Body r) = Inl err \<or>
         (\<exists>report. json_Decode L (Body r) = Inr report \<and> validate L report ucfg = Some err)"
  shows "\<exists>msg. handleUpload L ucfg F r s = (content_Error err 400, warn L msg err s)"
  using assms by (auto simp: handleUpload_def)

lemma Upload_warn: "Upload (warn L msg err s) = Upload s"
  by (simp add: warn_def Let_def)

lemma scenario_POST:
  "handleUpload scenario_libs scenario_cfg no_faults
     \<lparr>Method = ''POST'', Body = ''scenario''\<rparr> s =
   (content_Status 200,
    s\<lparr>Upload := (Upload s)(''2024-01-08/0.5.json'' \<mapsto> ''Week 2024-01-08 Config v0.1.0'')\<rparr>)"
proof -
  have "validate scenario_libs scenario_report scenario_cfg = None"
    by (simp add: validate_def scenario_defs)
  then show ?thesis
    by (simp add: handleUpload_def NewWriter_def Encode_def Write_def Close_def
        deferred_Close_def scenario_defs)
qed

lemma unknown_counter_invalid:
  "validate scenario_libs unknown_counter_report scenario_cfg =
     Some ''unknown counter compile/secret''"
  by (simp add: validate_def scenario_defs)

text \<open>
  Claim C2. A POST whose body does not decode, or whose report \<open>validate\<close> rejects,
  is answered with \<open>content.Error(err, 400)\<close>, and the upload bucket is what it was
  before the request, whatever the storage would have done: no object is created or
  changed.
\<close>

theorem handleUpload_invalid_stores_nothing:
  assumes "Method r = ''POST''"
    and "json_Decode L (Body r) = Inl err \<or>
         (\<exists>report. json_Decode L (Body r) = Inr report \<and> validate L report ucfg = Some err)"
  shows "fst (handleUpload L ucfg F r s) = content_Error err 400 \<and>
         Upload (snd (handleUpload L ucfg F r s)) = Upload s"
proof -
  obtain msg where "handleUpload L ucfg F r s = (content_Error err 400, warn L msg err s)"
    using handleUpload_invalid [OF assms] by blast
  then show ?thesis
    by (simp add: Upload_warn)
qed

theorem handleUpload_invalid_stores_nothing_witness:
  "fst (handleUpload scenario_libs scenario_cfg no_faults
          \<lparr>Method = ''POST'', Body = ''unknown counter''\<rparr> empty_server) =
     content_Error ''unknown counter compile/secret'' 400 \<and>
   Upload (snd (handleUpload scenario_libs scenario_cfg no_faults
          \<lparr>Method = ''POST'', Body = ''unknown counter''\<rparr> empty_server)) = Map.empty \<and>
   fst (handleUpload scenario_libs scenario_cfg no_faults
          \<lparr>Method = ''POST'', Body = ''{''\<rparr> empty_server) =
     content_Error ''unexpected EOF'' 400 \<and>
   Upload (snd (handleUpload scenario_libs scenario_cfg no_faults
          \<lparr>Method = ''POST'', Body = ''{''\<rparr> empty_server)) = Map.empty"
proof -
  have m: "Method \<lparr>Method = ''POST'', Body = ''unknown counter''\<rparr> = ''POST''"
    "Method \<lparr>Method = ''POST'', Body = ''{''\<rparr> = ''POST''"
    by simp_all
  have a: "json_Decode scenario_libs (Body \<lparr>Method = ''POST'', Body = ''unknown counter''\<rparr>) =
        Inl ''unknown counter compile/secret'' \<or>
      (\<exists>report. json_Decode scenario_libs (Body \<lparr>Method = ''POST'', Body = ''unknown counter''\<rparr>) =
        Inr report \<and>
        validate scenario_libs report scenario_cfg = Some ''unknown counter compile/secret'')"
    using unknown_counter_invalid by (simp add: scenario_libs_def)
  have b: "json_Decode scenario_libs (Body \<lparr>Method = ''POST'', Body = ''{''\<rparr>) =
        Inl ''unexpected EOF'' \<or>
      (\<exists>report. json_Decode scenario_libs (Body \<lparr>Method = ''POST'', Body = ''{''\<rparr>) =
        Inr report \<and> validate scenario_libs report scenario_cfg = Some ''unexpected EOF'')"
    by (simp add: scenario_libs_def)
  show ?thesis
    using handleUpload_invalid_stores_nothing [OF m(1) a, of no_faults empty_server]
      handleUpload_invalid_stores_nothing [OF m(2) b, of no_faults empty_server]
    by (simp add: empty_server_def)
qed

text \<open>
  Claim C4. When a POST is accepted (answered with status 200), the report that its
  body decodes to is stored under the name made of its week, a slash, its \<open>X\<close> as
  \<open>%g\<close> prints it, and \<open>.json\<close>; no other object of the bucket changes.
\<close>

theorem handleUpload_object_name:
  assumes "handleUpload L ucfg F r s = (content_Status 200, s')"
    and "json_Decode L (Body r) = Inr report"
  shows "\<exists>data. json_Marshal L report = Inr data \<and>
    Upload s' = (Upload s)(Week report @ ''/'' @ fmt_g L (X report) @ ''.json'' \<mapsto> data)"
proof -
  from assms(1) have "fst (handleUpload L ucfg F r s) = content_Status 200"
    by simp
  from handleUpload_200D [OF this] assms(2) obtain data where
    d: "Method r = ''POST''" "validate L report ucfg = None" "json_Marshal L report = Inr data"
      "NewWriter_err F = None" "Write_err F = None" "Close_err F = None"
    by auto
  from handleUpload_stored [OF d(1) assms(2) d(2-6), of s] assms(1) d(3)
  show ?thesis by auto
qed

theorem handleUpload_object_name_witness:
  "json_Marshal scenario_libs scenario_report = Inr ''Week 2024-01-08 Config v0.1.0'' \<and>
   Upload (snd (handleUpload scenario_libs scenario_cfg no_faults
      \<lparr>Method = ''POST'', Body = ''scenario''\<rparr> empty_server)) =
     [''2024-01-08/0.5.json'' \<mapsto> ''Week 2024-01-08 Config v0.1.0'']"
proof -
  let ?s' = "empty_server\<lparr>Upload :=
    (Upload empty_server)(''2024-01-08/0.5.json'' \<mapsto> ''Week 2024-01-08 Config v0.1.0'')\<rparr>"
  have d: "json_Decode scenario_libs (Body \<lparr>Method = ''POST'', Body = ''scenario''\<rparr>) =
      Inr scenario_report"
    by (simp add: scenario_libs_def)
  from handleUpload_object_name [OF scenario_POST d, of empty_server]
  have "Upload ?s' = (Upload empty_server)
      (Week scenario_report @ ''/'' @ fmt_g scenario_libs (X scenario_report) @ ''.json'' \<mapsto>
       ''Week 2024-01-08 Config v0.1.0'')"
    by (simp add: scenario_defs)
  then show ?thesis
    by (simp add: scenario_POST) (simp add: scenario_defs)
qed


text \<open>
  Claim C3. Ingestion is idempotent: when the same request is accepted twice in a
  row, both POSTs store the same content under the same object name, and the second
  leaves the server as the first left it: no second object appears, and the stored
  content does not change.
\<close>

theorem handleUpload_idempotent:
  assumes "handleUpload L ucfg F r s = (content_Status 200, s1)"
    and "handleUpload L ucfg F' r s1 = (content_Status 200, s2)"
  shows "s2 = s1 \<and>
    (\<exists>report data.
       json_Decode L (Body r) = Inr report \<and> json_Marshal L report = Inr data \<and>
       Upload s1 = (Upload s)(Week report @ ''/'' @ fmt_g L (X report) @ ''.json'' \<mapsto> data) \<and>
       Upload s2 = (Upload s1)(Week report @ ''/'' @ fmt_g L (X report) @ ''.json'' \<mapsto> data))"
proof -
  from assms(1) have "fst (handleUpload L ucfg F r s) = content_Status 200"
    by simp
  from handleUpload_200D [OF this] obtain report data where
    d: "Method r = ''POST''" "json_Decode L (Body r) = Inr report"
      "validate L report ucfg = None" "json_Marshal L report = Inr data"
      "NewWriter_err F = None" "Write_err F = None" "Close_err F = None"
    by auto
  let ?name = "Week report @ ''/'' @ fmt_g L (X report) @ ''.json''"
  have s1: "s1 = s\<lparr>Upload := (Upload s)(?name \<mapsto> data)\<rparr>"
    using handleUpload_stored [OF d, of s] assms(1) by simp
  from assms(2) have "fst (handleUpload L ucfg F' r s1) = content_Status 200"
    by simp
  from handleUpload_200D [OF this]
  have f: "NewWriter_err F' = None" "Write_err F' = None" "Close_err F' = None"
    by auto
  have s2: "s2 = s1\<lparr>Upload := (Upload s1)(?name \<mapsto> data)\<rparr>"
    using handleUpload_stored [OF d(1-4) f, of s1] assms(2) by simp
  have "s2 = s1"
    unfolding s2 by (simp add: s1)
  with s1 s2 d(2,4) show ?thesis
    by auto
qed

theorem handleUpload_idempotent_witness:
  "snd (handleUpload scenario_libs scenario_cfg no_faults
      \<lparr>Method = ''POST'', Body = ''scenario''\<rparr>
      (snd (handleUpload scenario_libs scenario_cfg no_faults
         \<lparr>Method = ''POST'', Body = ''scenario''\<rparr> empty_server))) =
   snd (handleUpload scenario_libs scenario_cfg no_faults
      \<lparr>Method = ''POST'', Body = ''scenario''\<rparr> empty_server) \<and>
   dom (Upload (snd (handleUpload scenario_libs scenario_cfg no_faults
      \<lparr>Method = ''POST'', Body = ''scenario''\<rparr>
      (snd (handleUpload scenario_libs scenario_cfg no_faults
         \<lparr>Method = ''POST'', Body = ''scenario''\<rparr> empty_server))))) =
     {''2024-01-08/0.5.json''}"
proof -
  let ?r = "\<lparr>Method = ''POST'', Body = ''scenario''\<rparr>"
  let ?put = "\<lambda>s. s\<lparr>Upload :=
    (Upload s)(''2024-01-08/0.5.json'' \<mapsto> ''Week 2024-01-08 Config v0.1.0'')\<rparr>"
  have one: "handleUpload scenario_libs scenario_cfg no_faults ?r empty_server =
      (content_Status 200, ?put empty_server)"
    by (rule scenario_POST)
  have two: "handleUpload scenario_libs scenario_cfg no_faults ?r (?put empty_server) =
      (content_Status 200, ?put (?put empty_server))"
    by (rule scenario_POST)
  from handleUpload_idempotent [OF one two]
  have "?put (?put empty_server) = ?put empty_server"
    by blast
  then show ?thesis
    by (simp add: scenario_POST) (simp add: empty_server_def)
qed

text \<open>
  Claim C6. A request whose method is not POST is answered with status 405. A POST
  whose body does not decode, or whose report \<open>validate\<close> rejects, is answered with
  \<open>content.Error(err, 400)\<close>, \<open>err\<close> being the error of the decoder or of \<open>validate\<close>.
  A POST that decodes, validates and is stored (no storage call fails) is answered
  with status 200.
\<close>

theorem handleUpload_status:
  "(Method r \<noteq> ''POST'' \<longrightarrow> handleUpload L ucfg F r s = (content_Status 405, s)) \<and>
   (Method r = ''POST'' \<and> json_Decode L (Body r) = Inl err \<longrightarrow>
      fst (handleUpload L ucfg F r s) = content_Error err 400) \<and>
   (Method r = ''POST'' \<and> json_Decode L (Body r) = Inr report \<and>
    validate L report ucfg = Some err \<longrightarrow>
      fst (handleUpload L ucfg F r s) = content_Error err 400) \<and>
   (Method r = ''POST'' \<and> json_Decode L (Body r) = Inr report \<and>
    validate L report ucfg = None \<and> json_Marshal L report = Inr data \<and>
    NewWriter_err F = None \<and> Write_err F = None \<and> Close_err F = None \<longrightarrow>
      fst (handleUpload L ucfg F r s) = content_Status 200 \<and>
      Upload (snd (handleUpload L ucfg F r s))
        (Week report @ ''/'' @ fmt_g L (X report) @ ''.json'') = Some data)"
proof (intro conjI impI)
  assume "Method r \<noteq> ''POST''"
  then show "handleUpload L ucfg F r s = (content_Status 405, s)"
    by (simp add: handleUpload_def)
next
  assume "Method r = ''POST'' \<and> json_Decode L (Body r) = Inl err"
  then show "fst (handleUpload L ucfg F r s) = content_Error err 400"
    by (simp add: handleUpload_def)
next
  assume "Method r = ''POST'' \<and> json_Decode L (Body r) = Inr report \<and>
    validate L report ucfg = Some err"
  then show "fst (handleUpload L ucfg F r s) = content_Error err 400"
    by (simp add: handleUpload_def)
next
  assume a: "Method r = ''POST'' \<and> json_Decode L (Body r) = Inr report \<and>
    validate L report ucfg = None \<and> json_Marshal L report = Inr data \<and>
    NewWriter_err F = None \<and> Write_err F = None \<and> Close_err F = None"
  then have st: "handleUpload L ucfg F r s =
    (content_Status 200,
     s\<lparr>Upload := (Upload s)(Week report @ ''/'' @ fmt_g L (X report) @ ''.json'' \<mapsto> data)\<rparr>)"
    by (intro handleUpload_stored) simp_all
  show "fst (handleUpload L ucfg F r s) = content_Status 200"
    by (simp add: st)
  show "Upload (snd (handleUpload L ucfg F r s))
        (Week report @ ''/'' @ fmt_g L (X report) @ ''.json'') = Some data"
    by (simp add: st)
qed

theorem handleUpload_status_witness:
  "handleUpload scenario_libs scenario_cfg no_faults
     \<lparr>Method = ''GET'', Body = ''scenario''\<rparr> empty_server = (content_Status 405, empty_server) \<and>
   fst (handleUpload scenario_libs scenario_cfg no_faults
     \<lparr>Method = ''POST'', Body = ''{''\<rparr> empty_server) = content_Error ''unexpected EOF'' 400 \<and>
   fst (handleUpload scenario_libs scenario_cfg no_faults
     \<lparr>Method = ''POST'', Body = ''unknown counter''\<rparr> empty_server) =
     content_Error ''unknown counter compile/secret'' 400 \<and>
   fst (handleUpload scenario_libs scenario_cfg no_faults
     \<lparr>Method = ''POST'', Body = ''scenario''\<rparr> empty_server) = content_Status 200"
proof (intro conjI)
  let ?h = "handleUpload scenario_libs scenario_cfg no_faults"
  have "Method \<lparr>Method = ''GET'', Body = ''scenario''\<rparr> \<noteq> ''POST''"
    by simp
  with handleUpload_status [of "\<lparr>Method = ''GET'', Body = ''scenario''\<rparr>"]
  show "?h \<lparr>Method = ''GET'', Body = ''scenario''\<rparr> empty_server =
      (content_Status 405, empty_server)"
    by blast
  have "Method \<lparr>Method = ''POST'', Body = ''{''\<rparr> = ''POST'' \<and>
    json_Decode scenario_libs (Body \<lparr>Method = ''POST'', Body = ''{''\<rparr>) = Inl ''unexpected EOF''"
    by (simp add: scenario_libs_def)
  with handleUpload_status [of "\<lparr>Method = ''POST'', Body = ''{''\<rparr>" scenario_libs]
  show "fst (?h \<lparr>Method = ''POST'', Body = ''{''\<rparr> empty_server) =
      content_Error ''unexpected EOF'' 400"
    by blast
  have "Method \<lparr>Method = ''POST'', Body = ''unknown counter''\<rparr> = ''POST'' \<and>
    json_Decode scenario_libs (Body \<lparr>Method = ''POST'', Body = ''unknown counter''\<rparr>) =
      Inr unknown_counter_report \<and>
    validate scenario_libs unknown_counter_report scenario_cfg =
      Some ''unknown counter compile/secret''"
    using unknown_counter_invalid by (simp add: scenario_libs_def)
  with handleUpload_status
    [of "\<lparr>Method = ''POST'', Body = ''unknown counter''\<rparr>" scenario_libs]
  show "fst (?h \<lparr>Method = ''POST'', Body = ''unknown counter''\<rparr> empty_server) =
      content_Error ''unknown counter compile/secret'' 400"
    by blast
  have "Method \<lparr>Method = ''POST'', Body = ''scenario''\<rparr> = ''POST'' \<and>
    json_Decode scenario_libs (Body \<lparr>Method = ''POST'', Body = ''scenario''\<rparr>) =
      Inr scenario_report \<and>
    validate scenario_libs scenario_report scenario_cfg = None \<and>
    json_Marshal scenario_libs scenario_report = Inr ''Week 2024-01-08 Config v0.1.0'' \<and>
    NewWriter_err no_faults = None \<and> Write_err no_faults = None \<and> Close_err no_faults = None"
    by (simp add: validate_def scenario_defs)
  with handleUpload_status
    [of "\<lparr>Method = ''POST'', Body = ''scenario''\<rparr>" scenario_libs]
  show "fst (?h \<lparr>Method = ''POST'', Body = ''scenario''\<rparr> empty_server) = content_Status 200"
    by blast
qed

text \<open>
  Claim C9. For the error of an invalid payload or an invalid report, the handler
  logs one line: the message of \<open>warn\<close>, a colon and a space, and at most 80 runes of
  the error. An error of more than 80 runes is logged as its first 79 runes and an
  ellipsis; a shorter one is logged whole.
\<close>

theorem handleUpload_log_bounded:
  assumes "Method r = ''POST''"
    and "json_Decode L (Body r) = Inl err \<or>
         (\<exists>report. json_Decode L (Body r) = Inr report \<and> validate L report ucfg = Some err)"
  shows "log_out (snd (handleUpload L ucfg F r s)) =
      log_out s @
      [(case json_Decode L (Body r) of
          Inl e \<Rightarrow> ''invalid JSON payload''
        | Inr report \<Rightarrow> ''invalid report'') @ '': '' @
       string_of L
         (if length (runes_of L err) > 80 then take 79 (runes_of L err) @ [0x2026]
          else runes_of L err)] \<and>
    length (if length (runes_of L err) > 80 then take 79 (runes_of L err) @ [0x2026]
            else runes_of L err) \<le> 80"
proof
  show "log_out (snd (handleUpload L ucfg F r s)) =
      log_out s @
      [(case json_Decode L (Body r) of
          Inl e \<Rightarrow> ''invalid JSON payload''
        | Inr report \<Rightarrow> ''invalid report'') @ '': '' @
       string_of L
         (if length (runes_of L err) > 80 then take 79 (runes_of L err) @ [0x2026]
          else runes_of L err)]"
    using assms by (auto simp: handleUpload_def warn_def Let_def)
  show "length (if length (runes_of L err) > 80 then take 79 (runes_of L err) @ [0x2026]
            else runes_of L err) \<le> 80"
    by simp
qed

lemma char_of_byte: "of_char c = (n :: nat) \<Longrightarrow> char_of n = c"
  by (metis char_of_char)

lemma utf8_ellipsis: "utf8 0x2026 = [CHR 0xE2, CHR 0x80, CHR 0xA6]"
proof -
  have "char_of (226 :: nat) = CHR 0xE2" "char_of (128 :: nat) = CHR 0x80"
    "char_of (166 :: nat) = CHR 0xA6"
    by (rule char_of_byte, simp)+
  then show ?thesis
    by (simp add: utf8_def)
qed

lemma utf8_ascii: "of_char c < (0x80 :: nat) \<Longrightarrow> utf8 (of_char c) = [c]"
  by (simp add: utf8_def)

lemma utf8_text:
  "\<forall>c \<in> set cs. of_char c < (0x80 :: nat) \<Longrightarrow> concat (map utf8 (map of_char cs)) = cs"
  by (induction cs) (simp_all add: utf8_ascii)

lemma string_of_scenario: "string_of scenario_libs rs = concat (map utf8 rs)"
  by (simp add: scenario_libs_def)

lemma string_of_long_week:
  "string_of scenario_libs
     (map of_char (''invalid week '' @ replicate 66 (CHR ''9'')) @ [0x2026]) =
   ''invalid week '' @ replicate 66 (CHR ''9'') @ [CHR 0xE2, CHR 0x80, CHR 0xA6]"
proof -
  define cs where "cs = ''invalid week '' @ replicate 66 (CHR ''9'')"
  have "\<forall>c \<in> set cs. of_char c < (0x80 :: nat)"
    by (simp add: cs_def)
  then have "concat (map utf8 (map of_char cs)) = cs"
    by (rule utf8_text)
  then have "string_of scenario_libs (map of_char cs @ [0x2026]) =
      cs @ [CHR 0xE2, CHR 0x80, CHR 0xA6]"
    by (simp add: string_of_scenario utf8_ellipsis)
  then show ?thesis
    by (simp add: cs_def)
qed

lemma long_week_invalid:
  "validate scenario_libs long_week_report scenario_cfg =
     Some (''invalid week '' @ replicate 90 (CHR ''9''))"
proof -
  have "length (replicate 90 (CHR ''9'')) \<noteq> length ''2024-01-08''"
    by simp
  then have "replicate 90 (CHR ''9'') \<noteq> ''2024-01-08''"
    by metis
  then show ?thesis
    by (simp add: validate_def scenario_defs)
qed

text \<open>
  On the scenario: the error for a week of 90 bytes has 103 runes; 79 of them and
  the ellipsis (three bytes in UTF-8) are logged.
\<close>

theorem handleUpload_log_bounded_witness:
  "log_out (snd (handleUpload scenario_libs scenario_cfg no_faults
      \<lparr>Method = ''POST'', Body = ''long week''\<rparr> empty_server)) =
     [''invalid report: invalid week '' @ replicate 66 (CHR ''9'') @
      [CHR 0xE2, CHR 0x80, CHR 0xA6]] \<and>
   length (take 79 (runes_of scenario_libs (''invalid week '' @ replicate 90 (CHR ''9''))) @
           [0x2026 :: rune]) = 80"
proof -
  let ?r = "\<lparr>Method = ''POST'', Body = ''long week''\<rparr>"
  let ?err = "''invalid week '' @ replicate 90 (CHR ''9'')"
  have m: "Method ?r = ''POST''"
    by simp
  have d: "json_Decode scenario_libs (Body ?r) = Inr long_week_report"
    by (simp add: scenario_libs_def)
  have a: "json_Decode scenario_libs (Body ?r) = Inl ?err \<or>
      (\<exists>report. json_Decode scenario_libs (Body ?r) = Inr report \<and>
         validate scenario_libs report scenario_cfg = Some ?err)"
    using d long_week_invalid by simp
  have big: "80 < length (runes_of scenario_libs ?err)"
    by (simp add: scenario_libs_def)
  have rs: "take 79 (runes_of scenario_libs ?err) =
      map of_char (''invalid week '' @ replicate 66 (CHR ''9''))"
    by (simp add: scenario_libs_def take_map)
  have enc: "string_of scenario_libs
      (map of_char (''invalid week '' @ replicate 66 (CHR ''9'')) @ [0x2026]) =
      ''invalid week '' @ replicate 66 (CHR ''9'') @ [CHR 0xE2, CHR 0x80, CHR 0xA6]"
    by (rule string_of_long_week)
  note t = handleUpload_log_bounded [OF m a, of no_faults empty_server]
  have "log_out (snd (handleUpload scenario_libs scenario_cfg no_faults ?r empty_server)) =
      log_out empty_server @
      [''invalid report'' @ '': '' @
       string_of scenario_libs (take 79 (runes_of scenario_libs ?err) @ [0x2026])]"
    using t [THEN conjunct1] by (simp only: d big if_True sum.case)
  then have "log_out (snd (handleUpload scenario_libs scenario_cfg no_faults ?r empty_server)) =
      log_out empty_server @
      [''invalid report'' @ '': '' @
       (''invalid week '' @ replicate 66 (CHR ''9'') @ [CHR 0xE2, CHR 0x80, CHR 0xA6])]"
    by (simp only: rs enc)
  then have log: "log_out (snd (handleUpload scenario_libs scenario_cfg no_faults ?r
      empty_server)) =
      [''invalid report: invalid week '' @ replicate 66 (CHR ''9'') @
       [CHR 0xE2, CHR 0x80, CHR 0xA6]]"
    by (simp add: empty_server_def)
  have len: "length (take 79 (runes_of scenario_libs ?err) @ [0x2026 :: rune]) = 80"
    using big by simp
  from log len show ?thesis
    by (rule conjI)
qed


section \<open>Properties of \<open>Run\<close>\<close>

lemma upload_all_eq:
  "upload_all U ready u =
     (foldl (\<lambda>u f. uploadReport U f u) u ready, map UploadReport ready)"
  by (induction ready arbitrary: u) (simp_all add: Let_def)

lemma uploads_of_map: "uploads_of (map UploadReport ready) = ready"
  by (induction ready) simp_all

lemma Run_enabled:
  assumes "findWork U u = (todo, u1)" and "reports U todo u1 = ((ready, err), u2)"
  shows "Run False U u =
    (foldl (\<lambda>u f. uploadReport U f u) u2 ready,
     [FindWork, Reports] @
     (case err of Some e \<Rightarrow> [Printf (''reports: '' @ e)] | None \<Rightarrow> []) @
     map UploadReport ready)"
  using assms by (simp add: Run_def upload_all_eq)

text \<open>
  Claim C5. On every platform of the static list (GOOS openbsd, solaris, android, js
  or wasip1, or GOARCH 386) \<open>disabledOnPlatform\<close> is true, and \<open>Run\<close> returns at
  once: the state of the uploader, its directory and the network is what it was, and
  no call was made: no work was looked for, no report built, nothing uploaded.
\<close>

theorem Run_disabled_platform:
  assumes "goos \<in> {''openbsd'', ''solaris'', ''android'', ''js'', ''wasip1''} \<or> goarch = ''386''"
  shows "disabledOnPlatform goos goarch \<and>
         Run (disabledOnPlatform goos goarch) U u = (u, [])"
proof -
  have "disabledOnPlatform goos goarch"
    using assms by (auto simp: disabledOnPlatform_def)
  then show ?thesis
    by (simp add: Run_def)
qed

theorem Run_disabled_platform_witness:
  "Run (disabledOnPlatform ''openbsd'' ''amd64'') scenario_uploader [] = ([], []) \<and>
   Run (disabledOnPlatform ''linux'' ''386'') scenario_uploader [] = ([], []) \<and>
   Run (disabledOnPlatform ''linux'' ''amd64'') scenario_uploader [] \<noteq> ([], [])"
proof (intro conjI)
  have "''openbsd'' \<in> {''openbsd'', ''solaris'', ''android'', ''js'', ''wasip1''} \<or>
      ''amd64'' = ''386''"
    by simp
  from Run_disabled_platform [OF this, of scenario_uploader "[]"]
  show "Run (disabledOnPlatform ''openbsd'' ''amd64'') scenario_uploader [] = ([], [])"
    by (rule conjunct2)
  have "''linux'' \<in> {''openbsd'', ''solaris'', ''android'', ''js'', ''wasip1''} \<or>
      ''386'' = ''386''"
    by simp
  from Run_disabled_platform [OF this, of scenario_uploader "[]"]
  show "Run (disabledOnPlatform ''linux'' ''386'') scenario_uploader [] = ([], [])"
    by (rule conjunct2)
  show "Run (disabledOnPlatform ''linux'' ''amd64'') scenario_uploader [] \<noteq> ([], [])"
    by (simp add: disabledOnPlatform_def Run_def scenario_uploader_def)
qed

text \<open>
  Claim C7. In one pass on a platform that is not disabled, \<open>uploadReport\<close> is
  called once for every ready report, in order, whatever the earlier calls did:
  the reports whose upload was attempted are exactly the ready reports, and each
  call starts from the state its predecessor left. Since \<open>uploadReport\<close> returns
  nothing to \<open>Run\<close>, a failed upload cannot end the loop.
\<close>

theorem Run_attempts_every_ready_report:
  assumes "\<not> disabled"
    and "findWork U u = (todo, u1)"
    and "reports U todo u1 = ((ready, err), u2)"
  shows "uploads_of (snd (Run disabled U u)) = ready \<and>
         fst (Run disabled U u) = foldl (\<lambda>u f. uploadReport U f u) u2 ready"
proof -
  from assms(1) have d: "disabled = False"
    by simp
  have "uploads_of ([FindWork, Reports] @
      (case err of Some e \<Rightarrow> [Printf (''reports: '' @ e)] | None \<Rightarrow> []) @
      map UploadReport ready) = ready"
    by (cases err) (simp_all add: uploads_of_map)
  then show ?thesis
    unfolding d Run_enabled [OF assms(2,3)] by simp
qed

text \<open>
  On the scenario the upload of \<open>b.json\<close> fails; \<open>c.json\<close> is attempted, and sent,
  all the same.
\<close>

theorem Run_attempts_every_ready_report_witness:
  "uploads_of (snd (Run False scenario_uploader [])) = [''a.json'', ''b.json'', ''c.json''] \<and>
   fst (Run False scenario_uploader []) = [''a.json'', ''c.json'']"
proof -
  have n: "\<not> False"
    by simp
  have f: "findWork scenario_uploader [] = ((), [])"
    by (simp add: scenario_uploader_def)
  have r: "reports scenario_uploader () [] = (([''a.json'', ''b.json'', ''c.json''], None), [])"
    by (simp add: scenario_uploader_def)
  from Run_attempts_every_ready_report [OF n f r]
  show ?thesis
    by (simp add: scenario_uploader_def)
qed


section \<open>Properties of \<open>sanitize\<close> and of the tests\<close>





















end
